theory Spec2Isabelle
  imports Main
begin

section \<open>Python strings and paths\<close>

text \<open>
  A Python \<open>str\<close> is modelled as a \<open>string\<close> whose characters are the code points
  below 256. The string methods below are the ones \<open>make_meta_yml.py\<close> calls.
\<close>

text \<open>\<open>str.lower()\<close>: the upper-case letters below 256 are \<open>A\<close> to \<open>Z\<close> and
  0xC0 to 0xDE without the multiplication sign 0xD7; each maps to the code point 32 above.\<close>

definition lower_char :: "char \<Rightarrow> char" where
  "lower_char c =
     (let n = (of_char c :: nat)
      in if (65 \<le> n \<and> n \<le> 90) \<or> (192 \<le> n \<and> n \<le> 222 \<and> n \<noteq> 215)
         then char_of (n + 32) else c)"

definition lower :: "string \<Rightarrow> string" where
  "lower s = map lower_char s"

text \<open>\<open>s.startswith(sub)\<close>.\<close>

definition startswith :: "string \<Rightarrow> string \<Rightarrow> bool" where
  "startswith s sub = (take (length sub) s = sub)"

text \<open>\<open>sub in s\<close> for two strings: \<open>sub\<close> occurs somewhere in \<open>s\<close>.\<close>

fun py_in :: "string \<Rightarrow> string \<Rightarrow> bool" where
  "py_in sub [] = (sub = [])"
| "py_in sub (c # cs) = (if startswith (c # cs) sub then True else py_in sub cs)"

text \<open>\<open>s.count(sub)\<close>: the occurrences of \<open>sub\<close> found scanning from the left, the scan
  resuming behind each occurrence (so occurrences do not overlap). For the empty \<open>sub\<close>
  Python answers \<open>len(s) + 1\<close>.\<close>

fun str_count :: "string \<Rightarrow> string \<Rightarrow> nat" where
  "str_count [] sub = (if sub = [] then 1 else 0)"
| "str_count (c # cs) sub =
     (if sub = [] then Suc (str_count cs sub)
      else if startswith (c # cs) sub
           then Suc (str_count (drop (length sub) (c # cs)) sub)
           else str_count cs sub)"

text \<open>\<open>sep.join(xs)\<close>.\<close>

fun str_join :: "string \<Rightarrow> string list \<Rightarrow> string" where
  "str_join sep [] = []"
| "str_join sep [x] = x"
| "str_join sep (x # y # ys) = x @ sep @ str_join sep (y # ys)"

text \<open>\<open>str(n)\<close> for a non-negative integer.\<close>

function str_of_nat :: "nat \<Rightarrow> string" where
  "str_of_nat n =
     (if n < 10 then [char_of (48 + n)]
      else str_of_nat (n div 10) @ [char_of (48 + n mod 10)])"
  by pat_completeness auto
termination
  by (relation "measure id") auto

text \<open>\<open>s.splitlines()\<close>: a line ends at \<open>\n\<close>, \<open>\r\<close>, \<open>\r\n\<close>, \<open>\v\<close>, \<open>\f\<close>, the
  separators 0x1C to 0x1E and the next-line character 0x85; the ends are not kept, and
  a line end at the end of the text starts no further line.\<close>

definition is_linebreak :: "char \<Rightarrow> bool" where
  "is_linebreak c =
     (c = CHR 0x0A \<or> c = CHR 0x0D \<or> c = CHR 0x0B \<or> c = CHR 0x0C
      \<or> c = CHR 0x1C \<or> c = CHR 0x1D \<or> c = CHR 0x1E \<or> c = CHR 0x85)"

fun splitlines_from :: "string \<Rightarrow> string \<Rightarrow> string list" where
  "splitlines_from line [] = (if line = [] then [] else [line])"
| "splitlines_from line (c # cs) =
     (if is_linebreak c
      then line # splitlines_from []
             (if c = CHR 0x0D \<and> startswith cs [CHR 0x0A] then tl cs else cs)
      else splitlines_from (line @ [c]) cs)"

definition splitlines :: "string \<Rightarrow> string list" where
  "splitlines s = splitlines_from [] s"

text \<open>\<open>os.path.join(a, b)\<close>, \<open>os.path.basename(p)\<close> and \<open>os.path.dirname(p)\<close> of
  \<open>posixpath\<close>.\<close>

definition os_path_join :: "string \<Rightarrow> string \<Rightarrow> string" where
  "os_path_join a b =
     (if startswith b ''/'' then b
      else if a = [] \<or> last a = CHR ''/'' then a @ b
      else a @ ''/'' @ b)"

definition os_path_basename :: "string \<Rightarrow> string" where
  "os_path_basename p = rev (takeWhile (\<lambda>c. c \<noteq> CHR ''/'') (rev p))"

definition os_path_dirname :: "string \<Rightarrow> string" where
  "os_path_dirname p =
     (let head = rev (dropWhile (\<lambda>c. c \<noteq> CHR ''/'') (rev p))
      in if head \<noteq> [] \<and> \<not> list_all (\<lambda>c. c = CHR ''/'') head
         then rev (dropWhile (\<lambda>c. c = CHR ''/'') (rev head))
         else head)"

text \<open>\<open>max(d, key=lambda k: d[k])\<close> over the keys of a dictionary in insertion order:
  the running maximum is replaced only by a strictly greater value, so the first key
  with the greatest value is returned.\<close>

fun max_from :: "'k \<times> nat \<Rightarrow> ('k \<times> nat) list \<Rightarrow> 'k" where
  "max_from (k, v) [] = k"
| "max_from (k, v) ((k', v') # rest) =
     (if v < v' then max_from (k', v') rest else max_from (k, v) rest)"

section \<open>Errors\<close>

text \<open>The exceptions of a run. \<open>Raised\<close> stands for an exception raised inside a library
  call (a connection failure, an unreadable file, a broken archive, a failing
  \<open>setup.py\<close>), named by its class.\<close>

datatype error =
    ValueError string
  | HTTPError string
  | KeyError string
  | Raised string

section \<open>The extracted tree\<close>

text \<open>
  What the functions see of the file system: \<open>os_walk top\<close> is the list of
  \<open>(root, dirs, files)\<close> triples \<open>os.walk(top)\<close> yields, in its order, and \<open>file_text p\<close>
  is what \<open>open(p).read()\<close> returns, \<open>None\<close> when opening or decoding fails.
\<close>

record filesystem =
  os_walk :: "string \<Rightarrow> (string \<times> string list \<times> string list) list"
  file_text :: "string \<Rightarrow> string option"

text \<open>The loop that \<open>parse_license\<close>, \<open>get_requirements\<close> and \<open>parse_setup_py\<close> each
  open with: the first directory of the walk with a file whose lower-cased name contains
  \<open>key\<close>, and its first such file, joined to the directory; \<open>None\<close> is the loop's
  \<open>else\<close> branch.\<close>

fun find_file :: "string \<Rightarrow> (string \<times> string list \<times> string list) list \<Rightarrow> string option" where
  "find_file key [] = None"
| "find_file key ((root, dirs, files) # rest) =
     (case filter (\<lambda>filename. py_in key (lower filename)) files of
        [] \<Rightarrow> find_file key rest
      | first # others \<Rightarrow> Some (os_path_join root first))"

section \<open>The license classifier\<close>

definition licenses :: "string \<Rightarrow> (string \<times> nat) list" where
  "licenses content =
     [(''MIT'', str_count content ''MIT''),
      (''Apache-2.0'', str_count (lower content) ''apache''),
      (''GPL-2.0-or-later'', str_count content ''GNU''),
      (''BSD-3-Clause'', str_count (lower content) ''bsd 3'')]"

text \<open>\<open>repr\<close> of the dictionary's key view, as the f-string of the error prints it; the
  keys hold no quote, backslash or control character, so each is printed between single
  quotes.\<close>

definition repr_keys :: "string list \<Rightarrow> string" where
  "repr_keys ks =
     ''dict_keys(['' @ str_join '', '' (map (\<lambda>k. [CHR 0x27] @ k @ [CHR 0x27]) ks) @ ''])''"

definition parse_license :: "filesystem \<Rightarrow> string \<Rightarrow> error + (string \<times> string)" where
  "parse_license fs extracted_tar_gz_path =
     (case find_file ''license'' (os_walk fs extracted_tar_gz_path) of
        None \<Rightarrow> Inl (ValueError ''Could not find license file.'')
      | Some filepath \<Rightarrow>
          (case file_text fs (os_path_join extracted_tar_gz_path filepath) of
             None \<Rightarrow> Inl (Raised ''OSError'')
           | Some content \<Rightarrow>
               if sum_list (map snd (licenses content)) = 0
               then Inl (ValueError (''Could not find a license in '' @ filepath
                            @ ''. Looked for: '' @ repr_keys (map fst (licenses content))))
               else (case licenses content of
                       [] \<Rightarrow> Inl (ValueError ''max() arg is an empty sequence'')
                     | first # rest \<Rightarrow>
                         Inr (max_from first rest, os_path_basename filepath))))"

section \<open>The dependency reader\<close>

definition get_requirements :: "filesystem \<Rightarrow> string \<Rightarrow> error + string list" where
  "get_requirements fs extracted_tar_gz_path =
     (case find_file ''requirements'' (os_walk fs extracted_tar_gz_path) of
        None \<Rightarrow> Inl (ValueError ''Could not find requirements file.'')
      | Some filepath \<Rightarrow>
          (case file_text fs filepath of
             None \<Rightarrow> Inl (Raised ''OSError'')
           | Some text \<Rightarrow> Inr (splitlines text)))"

section \<open>The forge, the libraries and the process\<close>

text \<open>
  A \<open>requests.Response\<close>: its status code and reason phrase, the URL it came from, its
  body, and the top-level string fields of the body read as JSON (\<open>None\<close> when the body
  is no JSON object).
\<close>

record response =
  status_code :: nat
  reason :: string
  response_url :: string
  response_content :: string
  response_json :: "(string \<times> string) list option"

text \<open>What \<open>run_setup\<close> returns: the four getters the pipeline calls, each taken to
  return a string.\<close>

record distribution =
  get_version :: string
  get_url :: string
  get_name :: string
  get_description :: string

text \<open>
  What a run reads from outside the program. \<open>http_get u\<close> is the answer to
  \<open>requests.get(u)\<close> (the same for every request of one URL within a run), an error when
  no response arrives; \<open>untar bytes\<close> is the temporary directory \<open>tarfile\<close> unpacks the
  archive into, with the file system as it stands afterwards; \<open>run_setup p\<close> is
  \<open>setuptools.distutils.core.run_setup(p, stop_after="config")\<close>, taken to leave the
  working directory and the module search path as it found them; \<open>sha256_hexdigest\<close>
  is \<open>hashlib.sha256(bytes).hexdigest()\<close>.
\<close>

record env =
  http_get :: "string \<Rightarrow> error + response"
  untar :: "string \<Rightarrow> error + (string \<times> filesystem)"
  run_setup :: "string \<Rightarrow> error + distribution"
  sha256_hexdigest :: "string \<Rightarrow> string"

text \<open>
  What a run changes outside its return value: the requests sent (their URLs, oldest
  first), the working directory, \<open>sys.path\<close>, and the warnings issued.
\<close>

record world =
  requests_log :: "string list"
  cwd :: string
  sys_path :: "string list"
  warnings_log :: "string list"

definition requests_get :: "env \<Rightarrow> string \<Rightarrow> world \<Rightarrow> (error + response) \<times> world" where
  "requests_get env u w = (http_get env u, w\<lparr>requests_log := requests_log w @ [u]\<rparr>)"

text \<open>\<open>Response.raise_for_status()\<close> of \<open>requests\<close>: an \<open>HTTPError\<close> for a status from
  400 to 599, its message naming the status, the reason and the URL.\<close>

definition raise_for_status :: "response \<Rightarrow> error + unit" where
  "raise_for_status r =
     (if 400 \<le> status_code r \<and> status_code r < 500
      then Inl (HTTPError (str_of_nat (status_code r) @ '' Client Error: '' @ reason r
                  @ '' for url: '' @ response_url r))
      else if 500 \<le> status_code r \<and> status_code r < 600
      then Inl (HTTPError (str_of_nat (status_code r) @ '' Server Error: '' @ reason r
                  @ '' for url: '' @ response_url r))
      else Inr ())"

text \<open>\<open>os.chdir(p)\<close>: a relative \<open>p\<close> is resolved against the working directory.\<close>

definition os_chdir :: "string \<Rightarrow> world \<Rightarrow> world" where
  "os_chdir p w = w\<lparr>cwd := os_path_join (cwd w) p\<rparr>"

text \<open>\<open>warnings.warn(msg)\<close> under the default filters: the warning is reported and
  the run goes on.\<close>

definition warnings_warn :: "string \<Rightarrow> world \<Rightarrow> world" where
  "warnings_warn msg w = w\<lparr>warnings_log := warnings_log w @ [msg]\<rparr>"

section \<open>Fetching and unpacking the release\<close>

definition get_latest_release :: "env \<Rightarrow> string \<Rightarrow> string \<Rightarrow> world \<Rightarrow> (error + string) \<times> world" where
  "get_latest_release env username repo w =
     (case requests_get env
             (''https://api.github.com/repos/'' @ username @ ''/'' @ repo @ ''/releases/latest'') w of
        (Inl e, w') \<Rightarrow> (Inl e, w')
      | (Inr resp, w') \<Rightarrow>
          (case response_json resp of
             None \<Rightarrow> (Inl (Raised ''JSONDecodeError''), w')
           | Some body \<Rightarrow>
               (case map_of body ''tag_name'' of
                  None \<Rightarrow> (Inl (KeyError ''tag_name''), w')
                | Some tag_name \<Rightarrow> (Inr tag_name, w'))))"

definition archive_url :: "string \<Rightarrow> string \<Rightarrow> string \<Rightarrow> string" where
  "archive_url username repo tag_name =
     ''https://github.com/'' @ username @ ''/'' @ repo @ ''/archive/refs/tags/'' @ tag_name
       @ ''.tar.gz''"

definition download_tar_gz ::
  "env \<Rightarrow> string \<Rightarrow> string \<Rightarrow> string \<Rightarrow> world \<Rightarrow> (error + response) \<times> world" where
  "download_tar_gz env username repo tag_name w =
     (case requests_get env (archive_url username repo tag_name) w of
        (Inl e, w') \<Rightarrow> (Inl e, w')
      | (Inr resp, w') \<Rightarrow>
          (case raise_for_status resp of
             Inl e \<Rightarrow> (Inl e, w')
           | Inr u \<Rightarrow> (Inr resp, w')))"

definition extract_tar_gz :: "env \<Rightarrow> response \<Rightarrow> error + (string \<times> filesystem)" where
  "extract_tar_gz env resp = untar env (response_content resp)"

section \<open>The build-metadata parser\<close>

definition parse_setup_py ::
  "env \<Rightarrow> filesystem \<Rightarrow> string \<Rightarrow> world \<Rightarrow> (error + distribution) \<times> world" where
  "parse_setup_py env fs extracted_tar_gz_path w =
     (case find_file ''setup'' (os_walk fs extracted_tar_gz_path) of
        None \<Rightarrow> (Inl (ValueError ''Could not find setup.py file.''), w)
      | Some filepath \<Rightarrow>
          (let current_dir = cwd w;
               w1 = os_chdir (os_path_dirname filepath) w;
               w2 = w1\<lparr>sys_path := os_path_dirname filepath # sys_path w1\<rparr>
           in case run_setup env filepath of
                Inl e \<Rightarrow> (Inl e, w2)
              | Inr dist \<Rightarrow> (Inr dist, os_chdir current_dir w2)))"

section \<open>The validators\<close>

text \<open>The \<open>except requests.exceptions.HTTPError\<close> clause of \<open>validate_maintainers\<close>: what
  leaves the \<open>try\<close> statement when its body raised \<open>e\<close>. \<open>str(exception)\<close> is the
  message of the \<open>HTTPError\<close>.\<close>

definition maintainer_handler :: "string \<Rightarrow> error \<Rightarrow> error" where
  "maintainer_handler maintainer e =
     (case e of
        HTTPError msg \<Rightarrow>
          if py_in ''404'' msg
          then ValueError ([CHR 0x27] @ maintainer @ [CHR 0x27]
                 @ '' could not be found as a GitHub user'')
          else HTTPError msg
      | ValueError msg \<Rightarrow> ValueError msg
      | KeyError msg \<Rightarrow> KeyError msg
      | Raised cls \<Rightarrow> Raised cls)"

fun validate_maintainers :: "env \<Rightarrow> string list \<Rightarrow> world \<Rightarrow> (error + unit) \<times> world" where
  "validate_maintainers env [] w = (Inr (), w)"
| "validate_maintainers env (maintainer # rest) w =
     (case requests_get env (''https://api.github.com/users/'' @ maintainer) w of
        (Inl e, w') \<Rightarrow> (Inl (maintainer_handler maintainer e), w')
      | (Inr resp, w') \<Rightarrow>
          (case raise_for_status resp of
             Inl e \<Rightarrow> (Inl (maintainer_handler maintainer e), w')
           | Inr u \<Rightarrow> validate_maintainers env rest w'))"

fun validate_urls :: "env \<Rightarrow> string list \<Rightarrow> world \<Rightarrow> (error + unit) \<times> world" where
  "validate_urls env [] w = (Inr (), w)"
| "validate_urls env (url # rest) w =
     (if length url = 0 then validate_urls env rest w
      else (case requests_get env url w of
              (Inl e, w') \<Rightarrow> (Inl e, w')
            | (Inr resp, w') \<Rightarrow>
                if status_code resp \<noteq> 200
                then (Inl (ValueError (''URL: '' @ url @ '' returned non-200 status code: ''
                             @ str_of_nat (status_code resp))), w')
                else validate_urls env rest w'))"

section \<open>The manifest\<close>

text \<open>The document handed to \<open>yaml.dump\<close>: strings, integers, lists, and dictionaries
  in insertion order.\<close>

datatype yaml =
    YStr string
  | YInt int
  | YSeq "yaml list"
  | YMap "(string \<times> yaml) list"

definition preamble :: "string \<Rightarrow> string \<Rightarrow> string" where
  "preamble package_name version =
     str_join [CHR 0x0A]
       [''{'' @ (''% set name = '' @ [CHR 0x27] @ package_name @ [CHR 0x27] @ '' %'') @ ''}'',
        ''{'' @ (''% set version = '' @ [CHR 0x27] @ version @ [CHR 0x27] @ '' %'') @ ''}'']"

definition meta ::
  "string \<Rightarrow> string \<Rightarrow> string \<Rightarrow> string \<Rightarrow> string list \<Rightarrow> string \<Rightarrow> string \<Rightarrow> string
     \<Rightarrow> string \<Rightarrow> string \<Rightarrow> string \<Rightarrow> string \<Rightarrow> string list \<Rightarrow> yaml" where
  "meta username repo tag_name sha256 requirements package_name home_url repo_license
        license_filename summary documentation_url github_url maintainers =
     YMap
       [(''package'', YMap [(''name'', YStr ''{{ name | lower }}''),
                            (''version'', YStr ''{{ version }}'')]),
        (''source'', YMap [(''url'', YStr (archive_url username repo tag_name)),
                           (''sha256'', YStr sha256)]),
        (''build'', YMap [(''number'', YInt 0),
                          (''script'', YStr ''{{ PYTHON }} -m pip install . -vv'')]),
        (''requirements'',
           YMap [(''host'', YSeq (map YStr ([''python'', ''pip''] @ requirements))),
                 (''run'', YSeq (map YStr ([''python''] @ requirements)))]),
        (''test'', YMap [(''imports'', YSeq [YStr package_name])]),
        (''about'', YMap [(''home'', YStr home_url),
                          (''license'', YStr repo_license),
                          (''license_file'', YStr license_filename),
                          (''summary'', YStr summary),
                          (''doc_url'', YStr documentation_url),
                          (''dev_url'', YStr github_url)]),
        (''extra'', YMap [(''recipe_maintainers'', YSeq (map YStr maintainers))])]"

text \<open>\<open>d[k1][k2]\<close> on the document.\<close>

fun yaml_get :: "yaml \<Rightarrow> string \<Rightarrow> yaml option" where
  "yaml_get (YMap kvs) k = map_of kvs k"
| "yaml_get (YStr s) k = None"
| "yaml_get (YInt i) k = None"
| "yaml_get (YSeq xs) k = None"

definition yaml_get2 :: "yaml \<Rightarrow> string \<Rightarrow> string \<Rightarrow> yaml option" where
  "yaml_get2 d k1 k2 = (case yaml_get d k1 of None \<Rightarrow> None | Some d' \<Rightarrow> yaml_get d' k2)"

text \<open>
  \<open>make_meta_yaml\<close>. \<open>yaml_dump\<close> is \<open>yaml.dump(meta, sort_keys=False,
  Dumper=CondaYamlDumper)\<close>, a parameter of the model: the PyYAML emitter is not part
  of this repository.
\<close>

definition repo_url :: "string \<Rightarrow> string \<Rightarrow> string" where
  "repo_url username repo = ''https://github.com/'' @ username @ ''/'' @ repo"

definition version_warning :: "string \<Rightarrow> string \<Rightarrow> string" where
  "version_warning version tag_name =
     ''Version '' @ [CHR 0x27] @ version @ [CHR 0x27]
       @ '' in setup.py may not correspond to release tag name: ''
       @ [CHR 0x27] @ tag_name @ [CHR 0x27]"

definition make_meta_yaml ::
  "(yaml \<Rightarrow> string) \<Rightarrow> env \<Rightarrow> string \<Rightarrow> string \<Rightarrow> string list \<Rightarrow> string \<Rightarrow> world
     \<Rightarrow> (error + string) \<times> world" where
  "make_meta_yaml yaml_dump env username repo maintainers documentation_url w0 =
     (let github_url = repo_url username repo in
      case get_latest_release env username repo w0 of
        (Inl e, w1) \<Rightarrow> (Inl e, w1)
      | (Inr tag_name, w1) \<Rightarrow>
      (case download_tar_gz env username repo tag_name w1 of
        (Inl e, w2) \<Rightarrow> (Inl e, w2)
      | (Inr resp, w2) \<Rightarrow>
      (case extract_tar_gz env resp of
        Inl e \<Rightarrow> (Inl e, w2)
      | Inr (extracted_repo, fs) \<Rightarrow>
      (case parse_license fs extracted_repo of
        Inl e \<Rightarrow> (Inl e, w2)
      | Inr (repo_license, license_filename) \<Rightarrow>
      (case get_requirements fs extracted_repo of
        Inl e \<Rightarrow> (Inl e, w2)
      | Inr requirements \<Rightarrow>
      (case parse_setup_py env fs extracted_repo w2 of
        (Inl e, w3) \<Rightarrow> (Inl e, w3)
      | (Inr distribution_info, w3) \<Rightarrow>
      (let version = get_version distribution_info;
           home_url = get_url distribution_info;
           package_name = get_name distribution_info;
           summary = get_description distribution_info;
           sha256 = sha256_hexdigest env (response_content resp)
       in
       case validate_maintainers env maintainers w3 of
        (Inl e, w4) \<Rightarrow> (Inl e, w4)
      | (Inr u, w4) \<Rightarrow>
      (case validate_urls env [github_url, home_url, documentation_url] w4 of
        (Inl e, w5) \<Rightarrow> (Inl e, w5)
      | (Inr u', w5) \<Rightarrow>
      (let w6 = (if \<not> py_in version tag_name
                 then warnings_warn (version_warning version tag_name) w5 else w5)
       in (Inr (preamble package_name version @ [CHR 0x0A, CHR 0x0A]
                  @ yaml_dump (meta username repo tag_name sha256 requirements package_name
                                 home_url repo_license license_filename summary
                                 documentation_url github_url maintainers)),
           w6))))))))))"

section \<open>The specification's wording of the classifier\<close>

text \<open>
  Following the specification, not the code: the occurrences of a keyword in a text
  are the positions at which the keyword stands, compared as written
  (\<open>occurrences\<close>) or with the case of the letters ignored
  (\<open>occurrences_ignoring_case\<close>); the classifier's answer is the identifier with the
  highest count, and among equal highest counts the first in the order MIT, Apache-2.0,
  GPL-2.0-or-later, BSD-3-Clause.
\<close>

fun occurrences :: "string \<Rightarrow> string \<Rightarrow> nat" where
  "occurrences keyword [] = 0"
| "occurrences keyword (c # cs) =
     (if take (length keyword) (c # cs) = keyword then 1 else 0) + occurrences keyword cs"

fun occurrences_ignoring_case :: "string \<Rightarrow> string \<Rightarrow> nat" where
  "occurrences_ignoring_case keyword [] = 0"
| "occurrences_ignoring_case keyword (c # cs) =
     (if lower (take (length keyword) (c # cs)) = lower keyword then 1 else 0)
       + occurrences_ignoring_case keyword cs"

definition highest_count_license :: "string \<Rightarrow> string" where
  "highest_count_license contents =
     (let mit = occurrences ''MIT'' contents;
          apache = occurrences_ignoring_case ''apache'' contents;
          gnu = occurrences ''GNU'' contents;
          bsd = occurrences_ignoring_case ''bsd 3'' contents;
          highest = max (max mit apache) (max gnu bsd)
      in if mit = highest then ''MIT''
         else if apache = highest then ''Apache-2.0''
         else if gnu = highest then ''GPL-2.0-or-later''
         else ''BSD-3-Clause'')"

text \<open>A keyword none of whose proper prefixes is also its suffix: two occurrences of
  such a keyword never overlap.\<close>

definition borderless :: "string \<Rightarrow> bool" where
  "borderless sub = list_all (\<lambda>k. take k sub \<noteq> drop (length sub - k) sub) [1..<length sub]"

section \<open>Example runs\<close>

text \<open>
  The fixture of the specification's end-to-end scenario: release \<open>v1.2.0\<close> of
  \<open>alice/samplepkg\<close>, unpacked into \<open>/tmp/tmpabc\<close>, with a \<open>LICENSE\<close>, a
  \<open>requirements.txt\<close> of two lines and a \<open>setup.py\<close>. The examples below vary it.
\<close>

definition sample_walk ::
  "string list \<Rightarrow> string \<Rightarrow> (string \<times> string list \<times> string list) list" where
  "sample_walk files start =
     (if start = ''/tmp/tmpabc''
      then [(''/tmp/tmpabc'', [''samplepkg-1.2.0''], []),
            (''/tmp/tmpabc/samplepkg-1.2.0'', [], files)]
      else [])"

definition sample_fs :: "string \<Rightarrow> filesystem" where
  "sample_fs license_text =
     \<lparr>os_walk = sample_walk [''README.md'', ''LICENSE'', ''requirements.txt'', ''setup.py''],
      file_text =
        [''/tmp/tmpabc/samplepkg-1.2.0/LICENSE'' \<mapsto> license_text,
         ''/tmp/tmpabc/samplepkg-1.2.0/requirements.txt'' \<mapsto>
            ''requests>=2.0'' @ [CHR 0x0A] @ ''pyyaml'' @ [CHR 0x0A]]\<rparr>"

definition answer :: "nat \<Rightarrow> string \<Rightarrow> string \<Rightarrow> response" where
  "answer status phrase u =
     \<lparr>status_code = status, reason = phrase, response_url = u,
      response_content = ''archive-bytes'', response_json = None\<rparr>"

definition sample_http :: "string \<Rightarrow> error + response" where
  "sample_http u =
     (if u = ''https://api.github.com/repos/alice/samplepkg/releases/latest''
      then Inr ((answer 200 ''OK'' u)\<lparr>response_json := Some [(''tag_name'', ''v1.2.0'')]\<rparr>)
      else if u \<in> set [''https://github.com/alice/samplepkg/archive/refs/tags/v1.2.0.tar.gz'',
                        ''https://api.github.com/users/alice'',
                        ''https://github.com/alice/samplepkg'',
                        ''https://example.com'']
      then Inr (answer 200 ''OK'' u)
      else if u = ''https://api.github.com/users/user404''
      then Inr (answer 403 ''rate limit exceeded'' u)
      else Inr (answer 404 ''Not Found'' u))"

definition sample_dist :: "string \<Rightarrow> distribution" where
  "sample_dist version =
     \<lparr>get_version = version, get_url = ''https://example.com'', get_name = ''samplepkg'',
      get_description = ''A sample package''\<rparr>"

definition sample_env :: "filesystem \<Rightarrow> (error + distribution) \<Rightarrow> env" where
  "sample_env fs setup_result =
     \<lparr>http_get = sample_http,
      untar = (\<lambda>bytes. Inr (''/tmp/tmpabc'', fs)),
      run_setup = (\<lambda>p. setup_result),
      sha256_hexdigest = (\<lambda>bytes. ''0f'')\<rparr>"

definition world0 :: world where
  "world0 = \<lparr>requests_log = [], cwd = ''/home/user'', sys_path = [''/usr/lib/python3''],
             warnings_log = []\<rparr>"

text \<open>The fixture without a license file, and the fixture whose \<open>LICENSE\<close> is listed by
  the walk but cannot be opened (a dangling symbolic link, say).\<close>

definition no_license_fs :: filesystem where
  "no_license_fs = (sample_fs [])\<lparr>os_walk := sample_walk [''README.md'', ''setup.py'']\<rparr>"

definition unreadable_license_fs :: filesystem where
  "unreadable_license_fs = (sample_fs [])\<lparr>file_text := (\<lambda>p. None)\<rparr>"

text \<open>The fixture without a requirements file, and the fixture with a requirements file
  of four lines, the second blank and the last without a line end.\<close>

definition no_requirements_fs :: filesystem where
  "no_requirements_fs =
     (sample_fs ''MIT License'')\<lparr>os_walk := sample_walk [''LICENSE'', ''setup.py'']\<rparr>"


section \<open>The license classifier counts occurrences\<close>

text \<open>\<open>str.count\<close> skips behind each occurrence it finds; for a borderless keyword
  nothing is lost by that, and the count is the number of positions at which the
  keyword stands.\<close>

lemma borderless_no_shifted_match:
  assumes "borderless sub" and "0 < k" and "k < length sub"
  shows "\<not> startswith (drop k sub @ rest) sub"
proof
  assume "startswith (drop k sub @ rest) sub"
  then have eq: "take (length sub) (drop k sub @ rest) = sub"
    by (simp add: startswith_def)
  have "take (length sub - k) (take (length sub) (drop k sub @ rest)) = drop k sub"
    by (simp add: min_def)
  with eq have "take (length sub - k) sub = drop k sub"
    by simp
  moreover have "length sub - k \<in> set [1..<length sub]"
    using assms(2,3) by auto
  then have "take (length sub - k) sub \<noteq> drop (length sub - (length sub - k)) sub"
    using assms(1) unfolding borderless_def list_all_iff by blast
  ultimately show False using assms(3) by simp
qed

lemma occurrences_skip_suffix:
  assumes "borderless sub" and "0 < k"
  shows "occurrences sub (drop k sub @ rest) = occurrences sub rest"
  using assms(2)
proof (induction "length sub - k" arbitrary: k)
  case 0
  then show ?case by simp
next
  case (Suc n)
  then have klt: "k < length sub" by simp
  then have split: "drop k sub = sub ! k # drop (Suc k) sub"
    by (simp add: Cons_nth_drop_Suc)
  have nomatch: "\<not> startswith (drop k sub @ rest) sub"
    using borderless_no_shifted_match [OF assms(1) Suc.prems klt] .
  have "occurrences sub (drop k sub @ rest) = occurrences sub (drop (Suc k) sub @ rest)"
    using nomatch by (simp add: split startswith_def)
  also have "\<dots> = occurrences sub rest"
    using Suc.hyps(1) [of "Suc k"] Suc.hyps(2) by simp
  finally show ?case .
qed

lemma str_count_occurrences:
  "borderless sub \<Longrightarrow> sub \<noteq> [] \<Longrightarrow> str_count s sub = occurrences sub s"
proof (induction s sub rule: str_count.induct)
  case (1 sub)
  then show ?case by simp
next
  case (2 c cs sub)
  show ?case
  proof (cases "startswith (c # cs) sub")
    case True
    then have whole: "c # cs = sub @ drop (length sub) (c # cs)"
      by (metis append_take_drop_id startswith_def)
    with "2.prems"(2) have tail: "cs = drop 1 sub @ drop (length sub) (c # cs)"
      by (cases sub) auto
    have "occurrences sub cs = occurrences sub (drop 1 sub @ drop (length sub) (c # cs))"
      using tail by simp
    also have "\<dots> = occurrences sub (drop (length sub) (c # cs))"
      using occurrences_skip_suffix [OF "2.prems"(1), of 1] by simp
    finally have "occurrences sub cs = occurrences sub (drop (length sub) (c # cs))" .
    moreover have "str_count (drop (length sub) (c # cs)) sub
                     = occurrences sub (drop (length sub) (c # cs))"
      using "2.IH"(2) "2.prems" True by simp
    ultimately show ?thesis
      using True "2.prems"(2) by (simp add: startswith_def)
  next
    case False
    then show ?thesis
      using "2.IH"(3) "2.prems" by (simp add: startswith_def)
  qed
qed

lemma lower_take: "lower (take n s) = take n (lower s)"
  by (simp add: lower_def take_map)

lemma occurrences_ignoring_case_lower:
  "occurrences_ignoring_case keyword s = occurrences (lower keyword) (lower s)"
proof (induction s)
  case Nil
  then show ?case by (simp add: lower_def)
next
  case (Cons c cs)
  have "lower (take (length keyword) (c # cs)) = take (length (lower keyword)) (lower (c # cs))"
    by (simp add: lower_take) (simp add: lower_def)
  with Cons show ?case
    by (simp add: lower_def)
qed

lemma keywords_borderless:
  "borderless ''MIT''" "borderless ''apache''" "borderless ''GNU''" "borderless ''bsd 3''"
  by code_simp+

lemma keywords_lower: "lower ''apache'' = ''apache''" "lower ''bsd 3'' = ''bsd 3''"
  by code_simp+

lemma licenses_counts:
  "licenses contents =
     [(''MIT'', occurrences ''MIT'' contents),
      (''Apache-2.0'', occurrences_ignoring_case ''apache'' contents),
      (''GPL-2.0-or-later'', occurrences ''GNU'' contents),
      (''BSD-3-Clause'', occurrences_ignoring_case ''bsd 3'' contents)]"
proof -
  have "str_count contents ''MIT'' = occurrences ''MIT'' contents"
    by (rule str_count_occurrences [OF keywords_borderless(1)]) simp
  moreover have "str_count (lower contents) ''apache'' = occurrences_ignoring_case ''apache'' contents"
    using str_count_occurrences [OF keywords_borderless(2), of "lower contents"]
    by (simp only: occurrences_ignoring_case_lower keywords_lower) simp
  moreover have "str_count contents ''GNU'' = occurrences ''GNU'' contents"
    by (rule str_count_occurrences [OF keywords_borderless(3)]) simp
  moreover have "str_count (lower contents) ''bsd 3'' = occurrences_ignoring_case ''bsd 3'' contents"
    using str_count_occurrences [OF keywords_borderless(4), of "lower contents"]
    by (simp only: occurrences_ignoring_case_lower keywords_lower) simp
  ultimately show ?thesis
    by (simp only: licenses_def)
qed

lemma max_from_licenses:
  "max_from (''MIT'', m) [(''Apache-2.0'', a), (''GPL-2.0-or-later'', g), (''BSD-3-Clause'', b)]
     = (if m = max (max m a) (max g b) then ''MIT''
        else if a = max (max m a) (max g b) then ''Apache-2.0''
        else if g = max (max m a) (max g b) then ''GPL-2.0-or-later''
        else ''BSD-3-Clause'')"
  by (simp add: max_def)

text \<open>\<open>py_in\<close> is the substring test, and the walk's loop ends in its \<open>else\<close> branch
  exactly when no file name of the tree passes it.\<close>

lemma py_in_iff: "py_in sub s \<longleftrightarrow> (\<exists>before after. s = before @ sub @ after)"
proof (induction s)
  case Nil
  then show ?case by auto
next
  case (Cons c cs)
  show ?case
  proof
    assume "py_in sub (c # cs)"
    then consider "startswith (c # cs) sub" | "py_in sub cs"
      by (auto split: if_splits)
    then show "\<exists>before after. c # cs = before @ sub @ after"
    proof cases
      case 1
      then have "c # cs = [] @ sub @ drop (length sub) (c # cs)"
        by (metis append_Nil append_take_drop_id startswith_def)
      then show ?thesis by blast
    next
      case 2
      with Cons obtain before after where "cs = before @ sub @ after" by blast
      then have "c # cs = (c # before) @ sub @ after" by simp
      then show ?thesis by blast
    qed
  next
    assume "\<exists>before after. c # cs = before @ sub @ after"
    then obtain before after where eq: "c # cs = before @ sub @ after" by blast
    show "py_in sub (c # cs)"
    proof (cases before)
      case Nil
      with eq have "startswith (c # cs) sub" by (simp add: startswith_def)
      then show ?thesis by simp
    next
      case (Cons b before')
      with eq have "cs = before' @ sub @ after" by simp
      with Cons.IH have "py_in sub cs" by blast
      then show ?thesis by simp
    qed
  qed
qed

lemma find_file_None_iff:
  "find_file key walk = None
     \<longleftrightarrow> (\<forall>(root, dirs, files) \<in> set walk. \<forall>f \<in> set files. \<not> py_in key (lower f))"
  by (induction walk) (auto split: list.splits simp: filter_empty_conv)

lemma sum_licenses:
  "sum_list (map snd (licenses contents))
     = occurrences ''MIT'' contents + occurrences_ignoring_case ''apache'' contents
       + occurrences ''GNU'' contents + occurrences_ignoring_case ''bsd 3'' contents"
  by (simp only: licenses_counts) simp

lemma parse_license_read:
  assumes "find_file ''license'' (os_walk fs path) = Some filepath"
      and "file_text fs (os_path_join path filepath) = Some contents"
  shows "parse_license fs path =
     (if occurrences ''MIT'' contents + occurrences_ignoring_case ''apache'' contents
           + occurrences ''GNU'' contents + occurrences_ignoring_case ''bsd 3'' contents = 0
      then Inl (ValueError (''Could not find a license in '' @ filepath
             @ ''. Looked for: dict_keys(['MIT', 'Apache-2.0', 'GPL-2.0-or-later', 'BSD-3-Clause'])''))
      else Inr (highest_count_license contents, os_path_basename filepath))"
proof -
  have keys: "repr_keys (map fst (licenses contents))
                = ''dict_keys(['MIT', 'Apache-2.0', 'GPL-2.0-or-later', 'BSD-3-Clause'])''"
    by (simp add: licenses_def repr_keys_def)
  have choice: "(case licenses contents of [] \<Rightarrow> Inl (ValueError ''max() arg is an empty sequence'')
                 | first # rest \<Rightarrow> Inr (max_from first rest, os_path_basename filepath))
                = Inr (highest_count_license contents, os_path_basename filepath)"
    by (simp only: licenses_counts list.case max_from_licenses highest_count_license_def Let_def)
  show ?thesis
    unfolding parse_license_def
    by (simp only: assms option.case sum_licenses keys choice) simp
qed

text \<open>
  Claim C1, as amended. When a license file is found and its contents are read, and at
  least one of the four counts is positive (case-sensitive occurrences of \<open>MIT\<close> and
  \<open>GNU\<close>, case-insensitive occurrences of \<open>apache\<close> and \<open>bsd 3\<close>), \<open>parse_license\<close>
  returns the identifier with the highest count among MIT, Apache-2.0, GPL-2.0-or-later
  and BSD-3-Clause, a tie for the highest count going to the first of them in that order,
  together with the base name of the file.
\<close>

theorem parse_license_classification:
  assumes "find_file ''license'' (os_walk fs path) = Some filepath"
      and "file_text fs (os_path_join path filepath) = Some contents"
      and "0 < occurrences ''MIT'' contents + occurrences_ignoring_case ''apache'' contents
             + occurrences ''GNU'' contents + occurrences_ignoring_case ''bsd 3'' contents"
  shows "parse_license fs path = Inr (highest_count_license contents, os_path_basename filepath)"
  using parse_license_read [OF assms(1,2)] assms(3) by simp

theorem parse_license_classification_witness:
  "parse_license (sample_fs ''GNU Apache'') ''/tmp/tmpabc'' = Inr (''Apache-2.0'', ''LICENSE'')"
proof -
  have found: "find_file ''license'' (os_walk (sample_fs ''GNU Apache'') ''/tmp/tmpabc'')
                 = Some ''/tmp/tmpabc/samplepkg-1.2.0/LICENSE''"
    by code_simp
  have read: "file_text (sample_fs ''GNU Apache'')
                (os_path_join ''/tmp/tmpabc'' ''/tmp/tmpabc/samplepkg-1.2.0/LICENSE'')
              = Some ''GNU Apache''"
    by code_simp
  have counted: "0 < occurrences ''MIT'' ''GNU Apache''
                   + occurrences_ignoring_case ''apache'' ''GNU Apache''
                   + occurrences ''GNU'' ''GNU Apache''
                   + occurrences_ignoring_case ''bsd 3'' ''GNU Apache''"
    by code_simp
  have tie: "highest_count_license ''GNU Apache'' = ''Apache-2.0''"
    by code_simp
  have base: "os_path_basename ''/tmp/tmpabc/samplepkg-1.2.0/LICENSE'' = ''LICENSE''"
    by code_simp
  from parse_license_classification [OF found read counted] tie base show ?thesis
    by (simp only:)
qed

text \<open>
  Claim C1 as stated fails where no keyword occurs: the license file is found and its
  contents \<open>ISC License\<close> are read, all four counts are zero and tie for the highest,
  and \<open>parse_license\<close> raises instead of returning MIT.
\<close>

theorem parse_license_no_keywords_counterexample:
  "find_file ''license'' (os_walk (sample_fs ''ISC License'') ''/tmp/tmpabc'')
     = Some ''/tmp/tmpabc/samplepkg-1.2.0/LICENSE''
   \<and> file_text (sample_fs ''ISC License'')
        (os_path_join ''/tmp/tmpabc'' ''/tmp/tmpabc/samplepkg-1.2.0/LICENSE'') = Some ''ISC License''
   \<and> parse_license (sample_fs ''ISC License'') ''/tmp/tmpabc''
     = Inl (ValueError ''Could not find a license in /tmp/tmpabc/samplepkg-1.2.0/LICENSE. Looked for: dict_keys(['MIT', 'Apache-2.0', 'GPL-2.0-or-later', 'BSD-3-Clause'])'')"
  by code_simp

text \<open>
  Claim C6, as amended. \<open>parse_license\<close> raises in two cases of its own, with two
  different \<open>ValueError\<close> messages: when no file of the walked tree has \<open>license\<close> in
  its lower-cased name, \<open>Could not find license file.\<close>; when a license file is found
  and read and all four counts are zero, \<open>Could not find a license in\<close> the file, with
  the four candidate identifiers listed. Its only other failure is the error of opening
  or reading the license file it found, which propagates.
\<close>

theorem parse_license_failures:
  "((\<forall>(root, dirs, files) \<in> set (os_walk fs path). \<forall>f \<in> set files. \<not> py_in ''license'' (lower f))
      \<longrightarrow> parse_license fs path = Inl (ValueError ''Could not find license file.''))
   \<and> (find_file ''license'' (os_walk fs path) = Some filepath
        \<and> file_text fs (os_path_join path filepath) = Some contents
        \<and> occurrences ''MIT'' contents = 0 \<and> occurrences_ignoring_case ''apache'' contents = 0
        \<and> occurrences ''GNU'' contents = 0 \<and> occurrences_ignoring_case ''bsd 3'' contents = 0
      \<longrightarrow> parse_license fs path
            = Inl (ValueError (''Could not find a license in '' @ filepath
                @ ''. Looked for: dict_keys(['MIT', 'Apache-2.0', 'GPL-2.0-or-later', 'BSD-3-Clause'])''))
          \<and> parse_license fs path \<noteq> Inl (ValueError ''Could not find license file.''))
   \<and> (parse_license fs path = Inl e
      \<longrightarrow> (e = ValueError ''Could not find license file.''
            \<and> (\<forall>(root, dirs, files) \<in> set (os_walk fs path). \<forall>f \<in> set files.
                   \<not> py_in ''license'' (lower f)))
          \<or> (\<exists>found. find_file ''license'' (os_walk fs path) = Some found
                \<and> file_text fs (os_path_join path found) = None \<and> e = Raised ''OSError'')
          \<or> (\<exists>found read. find_file ''license'' (os_walk fs path) = Some found
                \<and> file_text fs (os_path_join path found) = Some read
                \<and> occurrences ''MIT'' read = 0 \<and> occurrences_ignoring_case ''apache'' read = 0
                \<and> occurrences ''GNU'' read = 0 \<and> occurrences_ignoring_case ''bsd 3'' read = 0
                \<and> e = ValueError (''Could not find a license in '' @ found
                     @ ''. Looked for: dict_keys(['MIT', 'Apache-2.0', 'GPL-2.0-or-later', 'BSD-3-Clause'])'')))"
proof (intro conjI impI)
  assume "\<forall>(root, dirs, files) \<in> set (os_walk fs path). \<forall>f \<in> set files. \<not> py_in ''license'' (lower f)"
  then have "find_file ''license'' (os_walk fs path) = None"
    by (simp only: find_file_None_iff)
  then show "parse_license fs path = Inl (ValueError ''Could not find license file.'')"
    by (simp add: parse_license_def)
next
  assume h: "find_file ''license'' (os_walk fs path) = Some filepath
        \<and> file_text fs (os_path_join path filepath) = Some contents
        \<and> occurrences ''MIT'' contents = 0 \<and> occurrences_ignoring_case ''apache'' contents = 0
        \<and> occurrences ''GNU'' contents = 0 \<and> occurrences_ignoring_case ''bsd 3'' contents = 0"
  then have r: "parse_license fs path = Inl (ValueError (''Could not find a license in '' @ filepath
                @ ''. Looked for: dict_keys(['MIT', 'Apache-2.0', 'GPL-2.0-or-later', 'BSD-3-Clause'])''))"
    using parse_license_read [of fs path filepath contents] by simp
  then show "parse_license fs path = Inl (ValueError (''Could not find a license in '' @ filepath
                @ ''. Looked for: dict_keys(['MIT', 'Apache-2.0', 'GPL-2.0-or-later', 'BSD-3-Clause'])''))" .
  from r show "parse_license fs path \<noteq> Inl (ValueError ''Could not find license file.'')"
    by simp
next
  assume fails: "parse_license fs path = Inl e"
  show "(e = ValueError ''Could not find license file.''
            \<and> (\<forall>(root, dirs, files) \<in> set (os_walk fs path). \<forall>f \<in> set files.
                   \<not> py_in ''license'' (lower f)))
          \<or> (\<exists>found. find_file ''license'' (os_walk fs path) = Some found
                \<and> file_text fs (os_path_join path found) = None \<and> e = Raised ''OSError'')
          \<or> (\<exists>found read. find_file ''license'' (os_walk fs path) = Some found
                \<and> file_text fs (os_path_join path found) = Some read
                \<and> occurrences ''MIT'' read = 0 \<and> occurrences_ignoring_case ''apache'' read = 0
                \<and> occurrences ''GNU'' read = 0 \<and> occurrences_ignoring_case ''bsd 3'' read = 0
                \<and> e = ValueError (''Could not find a license in '' @ found
                     @ ''. Looked for: dict_keys(['MIT', 'Apache-2.0', 'GPL-2.0-or-later', 'BSD-3-Clause'])''))"
  proof (cases "find_file ''license'' (os_walk fs path)")
    case None
    with fails have "e = ValueError ''Could not find license file.''"
      by (simp add: parse_license_def)
    moreover from None
    have "\<forall>(root, dirs, files) \<in> set (os_walk fs path). \<forall>f \<in> set files. \<not> py_in ''license'' (lower f)"
      by (simp only: find_file_None_iff)
    ultimately show ?thesis by blast
  next
    case (Some found)
    show ?thesis
    proof (cases "file_text fs (os_path_join path found)")
      case None
      with Some fails have "e = Raised ''OSError''"
        by (simp add: parse_license_def)
      with Some None show ?thesis by blast
    next
      case (Some read)
      from parse_license_read [OF \<open>find_file ''license'' (os_walk fs path) = Some found\<close> Some] fails
      have "occurrences ''MIT'' read = 0 \<and> occurrences_ignoring_case ''apache'' read = 0
                \<and> occurrences ''GNU'' read = 0 \<and> occurrences_ignoring_case ''bsd 3'' read = 0
                \<and> e = ValueError (''Could not find a license in '' @ found
                     @ ''. Looked for: dict_keys(['MIT', 'Apache-2.0', 'GPL-2.0-or-later', 'BSD-3-Clause'])'')"
        by (simp split: if_splits)
      with \<open>find_file ''license'' (os_walk fs path) = Some found\<close> Some show ?thesis by blast
    qed
  qed
qed

theorem parse_license_failures_witness:
  "parse_license no_license_fs ''/tmp/tmpabc'' = Inl (ValueError ''Could not find license file.'')
   \<and> parse_license (sample_fs ''ISC License'') ''/tmp/tmpabc''
       = Inl (ValueError (''Could not find a license in '' @ ''/tmp/tmpabc/samplepkg-1.2.0/LICENSE''
           @ ''. Looked for: dict_keys(['MIT', 'Apache-2.0', 'GPL-2.0-or-later', 'BSD-3-Clause'])''))
   \<and> parse_license (sample_fs ''ISC License'') ''/tmp/tmpabc''
       \<noteq> Inl (ValueError ''Could not find license file.'')
   \<and> (\<exists>found. find_file ''license'' (os_walk unreadable_license_fs ''/tmp/tmpabc'') = Some found
         \<and> file_text unreadable_license_fs (os_path_join ''/tmp/tmpabc'' found) = None)"
proof -
  have none: "\<forall>(root, dirs, files) \<in> set (os_walk no_license_fs ''/tmp/tmpabc'').
                \<forall>f \<in> set files. \<not> py_in ''license'' (lower f)"
    by code_simp
  have found: "find_file ''license'' (os_walk (sample_fs ''ISC License'') ''/tmp/tmpabc'')
                 = Some ''/tmp/tmpabc/samplepkg-1.2.0/LICENSE''"
    by code_simp
  have read: "file_text (sample_fs ''ISC License'')
                (os_path_join ''/tmp/tmpabc'' ''/tmp/tmpabc/samplepkg-1.2.0/LICENSE'')
              = Some ''ISC License''"
    by code_simp
  have zero: "occurrences ''MIT'' ''ISC License'' = 0
              \<and> occurrences_ignoring_case ''apache'' ''ISC License'' = 0
              \<and> occurrences ''GNU'' ''ISC License'' = 0
              \<and> occurrences_ignoring_case ''bsd 3'' ''ISC License'' = 0"
    by code_simp
  have unreadable: "parse_license unreadable_license_fs ''/tmp/tmpabc'' = Inl (Raised ''OSError'')"
    by code_simp
  have different: "Raised ''OSError'' \<noteq> ValueError ''Could not find license file.''"
    by simp
  have a: "parse_license no_license_fs ''/tmp/tmpabc''
             = Inl (ValueError ''Could not find license file.'')"
    using parse_license_failures [of no_license_fs "''/tmp/tmpabc''"] none by blast
  have b: "parse_license (sample_fs ''ISC License'') ''/tmp/tmpabc''
       = Inl (ValueError (''Could not find a license in '' @ ''/tmp/tmpabc/samplepkg-1.2.0/LICENSE''
           @ ''. Looked for: dict_keys(['MIT', 'Apache-2.0', 'GPL-2.0-or-later', 'BSD-3-Clause'])''))
     \<and> parse_license (sample_fs ''ISC License'') ''/tmp/tmpabc''
       \<noteq> Inl (ValueError ''Could not find license file.'')"
    using parse_license_failures [of "sample_fs ''ISC License''" "''/tmp/tmpabc''"
            "''/tmp/tmpabc/samplepkg-1.2.0/LICENSE''" "''ISC License''"] found read zero
    by blast
  have c: "\<exists>found. find_file ''license'' (os_walk unreadable_license_fs ''/tmp/tmpabc'') = Some found
         \<and> file_text unreadable_license_fs (os_path_join ''/tmp/tmpabc'' found) = None"
    using parse_license_failures [of unreadable_license_fs "''/tmp/tmpabc''" _ _ "Raised ''OSError''"]
      unreadable
    by (auto simp del: split_paired_All)
  from a b c show ?thesis by blast
qed

text \<open>
  Claim C6 as stated fails: the two cases are not the only failures. Here a license file
  is found, so the first case does not apply; it cannot be opened, so no count is taken
  and the second does not apply; and \<open>parse_license\<close> fails with the error of the read.
\<close>

theorem parse_license_unreadable_counterexample:
  "find_file ''license'' (os_walk unreadable_license_fs ''/tmp/tmpabc'')
     = Some ''/tmp/tmpabc/samplepkg-1.2.0/LICENSE''
   \<and> parse_license unreadable_license_fs ''/tmp/tmpabc'' = Inl (Raised ''OSError'')"
  by code_simp

section \<open>The dependency reader returns the lines of the file\<close>








section \<open>The side effects of the build-metadata parser\<close>

text \<open>The working directory after a call: restored when \<open>run_setup\<close> returns (the
  directory saved by \<open>os.getcwd()\<close> is absolute), left at the directory of the
  build description when \<open>run_setup\<close> raises.\<close>

lemma parse_setup_py_success_restores_cwd:
  assumes "parse_setup_py env fs extracted_tar_gz_path w = (Inr dist, w')"
      and "startswith (cwd w) ''/''"
  shows "cwd w' = cwd w"
  using assms unfolding parse_setup_py_def Let_def os_chdir_def os_path_join_def
  by (auto split: option.splits sum.splits)

lemma parse_setup_py_failure_cwd:
  assumes "find_file ''setup'' (os_walk fs extracted_tar_gz_path) = Some filepath"
      and "run_setup env filepath = Inl e"
  shows "parse_setup_py env fs extracted_tar_gz_path w
           = (Inl e, w\<lparr>cwd := os_path_join (cwd w) (os_path_dirname filepath),
                        sys_path := os_path_dirname filepath # sys_path w\<rparr>)"
  using assms unfolding parse_setup_py_def Let_def os_chdir_def
  by simp


text \<open>
  Claim C10. A call of \<open>parse_setup_py\<close> that returns a distribution has found a
  build-description file, and leaves \<open>sys.path\<close> as it was before the call with that
  file's directory in front: the entry is inserted and not removed.
\<close>

theorem parse_setup_py_sys_path:
  assumes "parse_setup_py env fs extracted_tar_gz_path w = (Inr dist, w')"
  shows "\<exists>filepath. find_file ''setup'' (os_walk fs extracted_tar_gz_path) = Some filepath
           \<and> sys_path w' = os_path_dirname filepath # sys_path w"
  using assms unfolding parse_setup_py_def Let_def os_chdir_def
  by (auto split: option.splits sum.splits)

theorem parse_setup_py_sys_path_witness:
  "sys_path (snd (parse_setup_py
                    (sample_env (sample_fs ''MIT License'') (Inr (sample_dist ''1.2.0'')))
                    (sample_fs ''MIT License'') ''/tmp/tmpabc'' world0))
     = [''/tmp/tmpabc/samplepkg-1.2.0'', ''/usr/lib/python3'']"
proof -
  let ?run = "parse_setup_py (sample_env (sample_fs ''MIT License'') (Inr (sample_dist ''1.2.0'')))
                (sample_fs ''MIT License'') ''/tmp/tmpabc'' world0"
  have ok: "fst ?run = Inr (sample_dist ''1.2.0'')"
    by code_simp
  have found: "find_file ''setup'' (os_walk (sample_fs ''MIT License'') ''/tmp/tmpabc'')
                 = Some ''/tmp/tmpabc/samplepkg-1.2.0/setup.py''"
    by code_simp
  have dir: "os_path_dirname ''/tmp/tmpabc/samplepkg-1.2.0/setup.py''
               = ''/tmp/tmpabc/samplepkg-1.2.0''"
    by code_simp
  have old: "sys_path world0 = [''/usr/lib/python3'']"
    by code_simp
  from ok have "?run = (Inr (sample_dist ''1.2.0''), snd ?run)"
    by (metis prod.collapse)
  from parse_setup_py_sys_path [OF this] found dir old show ?thesis
    by simp
qed

text \<open>
  Claim C4 at its failing input. The fixture's \<open>setup.py\<close> is malformed and \<open>run_setup\<close>
  raises a \<open>SyntaxError\<close>: the error propagates, and the working directory the caller
  observes afterwards is the directory of \<open>setup.py\<close>, not \<open>/home/user\<close> as before the
  call.
\<close>

theorem parse_setup_py_failure_keeps_new_cwd:
  "parse_setup_py (sample_env (sample_fs ''MIT License'') (Inl (Raised ''SyntaxError'')))
      (sample_fs ''MIT License'') ''/tmp/tmpabc'' world0
     = (Inl (Raised ''SyntaxError''),
        world0\<lparr>cwd := ''/tmp/tmpabc/samplepkg-1.2.0'',
                sys_path := [''/tmp/tmpabc/samplepkg-1.2.0'', ''/usr/lib/python3'']\<rparr>)
   \<and> cwd world0 = ''/home/user''"
  by code_simp

section \<open>The validators\<close>

text \<open>What \<open>validate_maintainers\<close> does get right: a lookup answered with status 404 is
  translated, its message starting with \<open>404\<close>, and a list of handles whose lookups
  raise nothing passes in silence.\<close>

lemma str_of_nat_404: "str_of_nat 404 = ''404''"
  by code_simp

lemma validate_maintainers_404:
  assumes "http_get env (''https://api.github.com/users/'' @ maintainer) = Inr r"
      and "status_code r = 404"
  shows "validate_maintainers env (maintainer # rest) w
           = (Inl (ValueError ([CHR 0x27] @ maintainer @ [CHR 0x27]
                     @ '' could not be found as a GitHub user'')),
              w\<lparr>requests_log := requests_log w @ [''https://api.github.com/users/'' @ maintainer]\<rparr>)"
proof -
  have "raise_for_status r
          = Inl (HTTPError (''404'' @ '' Client Error: '' @ reason r @ '' for url: '' @ response_url r))"
    using assms(2) by (simp add: raise_for_status_def str_of_nat_404 del: str_of_nat.simps)
  moreover have "py_in ''404'' (''404'' @ '' Client Error: '' @ reason r @ '' for url: '' @ response_url r)"
    by (simp add: startswith_def)
  ultimately show ?thesis
    using assms(1)
    by (simp add: requests_get_def maintainer_handler_def del: str_of_nat.simps py_in.simps)
qed

lemma validate_maintainers_success:
  assumes "\<forall>m \<in> set maintainers. \<exists>r. http_get env (''https://api.github.com/users/'' @ m) = Inr r
              \<and> (status_code r < 400 \<or> 600 \<le> status_code r)"
  shows "fst (validate_maintainers env maintainers w) = Inr ()"
  using assms
proof (induction maintainers arbitrary: w)
  case Nil
  then show ?case by simp
next
  case (Cons m rest)
  then obtain r where r: "http_get env (''https://api.github.com/users/'' @ m) = Inr r"
      "status_code r < 400 \<or> 600 \<le> status_code r"
    by auto
  then have "raise_for_status r = Inr ()"
    by (auto simp add: raise_for_status_def simp del: str_of_nat.simps)
  with r Cons show ?case
    by (simp add: requests_get_def del: str_of_nat.simps)
qed


text \<open>
  Claim C5 at its failing input. The forge answers the lookup of the handle \<open>user404\<close>
  with status 403; \<open>raise_for_status\<close> raises an \<open>HTTPError\<close> whose message names the
  status 403 and the URL, which ends in \<open>user404\<close>; \<open>validate_maintainers\<close> finds
  \<open>404\<close> in that message and raises the maintainer-not-found error instead of
  propagating the \<open>HTTPError\<close>.
\<close>

theorem validate_maintainers_403_translated:
  "http_get (sample_env (sample_fs ''MIT License'') (Inr (sample_dist ''1.2.0'')))
       ''https://api.github.com/users/user404''
     = Inr (answer 403 ''rate limit exceeded'' ''https://api.github.com/users/user404'')
   \<and> raise_for_status (answer 403 ''rate limit exceeded'' ''https://api.github.com/users/user404'')
     = Inl (HTTPError
         ''403 Client Error: rate limit exceeded for url: https://api.github.com/users/user404'')
   \<and> fst (validate_maintainers
            (sample_env (sample_fs ''MIT License'') (Inr (sample_dist ''1.2.0'')))
            [''user404''] world0)
     = Inl (ValueError ([CHR 0x27] @ ''user404'' @ [CHR 0x27]
              @ '' could not be found as a GitHub user''))"
  by code_simp

text \<open>One turn of the loop of \<open>validate_urls\<close>, with the request written out.\<close>

lemma validate_urls_step:
  "validate_urls env (url # rest) w =
     (if url = [] then validate_urls env rest w
      else case http_get env url of
             Inl e \<Rightarrow> (Inl e, w\<lparr>requests_log := requests_log w @ [url]\<rparr>)
           | Inr r \<Rightarrow>
               if status_code r \<noteq> 200
               then (Inl (ValueError (''URL: '' @ url @ '' returned non-200 status code: ''
                            @ str_of_nat (status_code r))),
                     w\<lparr>requests_log := requests_log w @ [url]\<rparr>)
               else validate_urls env rest (w\<lparr>requests_log := requests_log w @ [url]\<rparr>))"
  by (simp add: requests_get_def split: sum.splits)

lemma validate_urls_success_iff:
  "fst (validate_urls env urls w) = Inr ()
     \<longleftrightarrow> (\<forall>u \<in> set urls. u \<noteq> [] \<longrightarrow> (\<exists>r. http_get env u = Inr r \<and> status_code r = 200))"
proof (induction urls arbitrary: w)
  case Nil
  then show ?case by simp
next
  case (Cons url rest)
  show ?case
    unfolding validate_urls_step
    by (cases "http_get env url") (auto simp: Cons.IH)
qed

lemma validate_urls_success_log:
  "fst (validate_urls env urls w) = Inr ()
     \<Longrightarrow> snd (validate_urls env urls w)
         = w\<lparr>requests_log := requests_log w @ filter (\<lambda>u. u \<noteq> []) urls\<rparr>"
proof (induction urls arbitrary: w)
  case Nil
  then show ?case by simp
next
  case (Cons url rest)
  show ?case
  proof (cases "url = []")
    case True
    with Cons show ?thesis
      by (simp only: validate_urls_step if_True) simp
  next
    case False
    with Cons.prems obtain r where r: "http_get env url = Inr r" "status_code r = 200"
      by (auto simp only: validate_urls_step split: sum.splits if_splits) auto
    with False Cons.prems
    have "fst (validate_urls env rest (w\<lparr>requests_log := requests_log w @ [url]\<rparr>)) = Inr ()"
      by (simp add: validate_urls_step del: validate_urls.simps)
    from Cons.IH [OF this] r False show ?thesis
      by (simp add: validate_urls_step del: validate_urls.simps)
  qed
qed

lemma validate_urls_first_failure:
  assumes "\<forall>u \<in> set pre. u \<noteq> [] \<longrightarrow> (\<exists>r. http_get env u = Inr r \<and> status_code r = 200)"
      and "url \<noteq> []" and "http_get env url = Inr r" and "status_code r \<noteq> 200"
  shows "validate_urls env (pre @ url # post) w
           = (Inl (ValueError (''URL: '' @ url @ '' returned non-200 status code: ''
                     @ str_of_nat (status_code r))),
              w\<lparr>requests_log := requests_log w @ filter (\<lambda>u. u \<noteq> []) pre @ [url]\<rparr>)"
  using assms(1)
proof (induction pre arbitrary: w)
  case Nil
  with assms(2-4) show ?case
    by (simp add: validate_urls_step del: validate_urls.simps)
next
  case (Cons u pre)
  show ?case
  proof (cases "u = []")
    case True
    with Cons show ?thesis
      by (simp add: validate_urls_step del: validate_urls.simps)
  next
    case False
    with Cons.prems obtain r' where "http_get env u = Inr r'" "status_code r' = 200"
      by auto
    with False Cons show ?thesis
      by (simp add: validate_urls_step del: validate_urls.simps)
  qed
qed

text \<open>
  Claim C8. \<open>validate_urls\<close> succeeds exactly when every non-empty entry of the list is
  answered with status 200. When it succeeds, the requests it has sent are the non-empty
  entries, in order: one GET for each, none for an empty string. When the entries before
  \<open>url\<close> are empty or answered with 200 and the non-empty \<open>url\<close> is answered with
  another status, it aborts with a \<open>ValueError\<close> naming \<open>url\<close> and that status, having
  sent a request for each non-empty entry up to \<open>url\<close> and none for the entries after it.
\<close>

theorem validate_urls_contract:
  "(fst (validate_urls env urls w) = Inr ()
      \<longleftrightarrow> (\<forall>u \<in> set urls. u \<noteq> [] \<longrightarrow> (\<exists>r. http_get env u = Inr r \<and> status_code r = 200)))
   \<and> (fst (validate_urls env urls w) = Inr ()
      \<longrightarrow> requests_log (snd (validate_urls env urls w))
            = requests_log w @ filter (\<lambda>u. u \<noteq> []) urls)
   \<and> ((\<forall>u \<in> set pre. u \<noteq> [] \<longrightarrow> (\<exists>r. http_get env u = Inr r \<and> status_code r = 200))
        \<and> url \<noteq> [] \<and> http_get env url = Inr r \<and> status_code r \<noteq> 200
      \<longrightarrow> validate_urls env (pre @ url # post) w
            = (Inl (ValueError (''URL: '' @ url @ '' returned non-200 status code: ''
                      @ str_of_nat (status_code r))),
               w\<lparr>requests_log := requests_log w @ filter (\<lambda>u. u \<noteq> []) pre @ [url]\<rparr>))"
proof (intro conjI impI)
  show "fst (validate_urls env urls w) = Inr ()
      \<longleftrightarrow> (\<forall>u \<in> set urls. u \<noteq> [] \<longrightarrow> (\<exists>r. http_get env u = Inr r \<and> status_code r = 200))"
    by (rule validate_urls_success_iff)
next
  assume "fst (validate_urls env urls w) = Inr ()"
  from validate_urls_success_log [OF this]
  show "requests_log (snd (validate_urls env urls w))
            = requests_log w @ filter (\<lambda>u. u \<noteq> []) urls"
    by simp
next
  assume "(\<forall>u \<in> set pre. u \<noteq> [] \<longrightarrow> (\<exists>r. http_get env u = Inr r \<and> status_code r = 200))
        \<and> url \<noteq> [] \<and> http_get env url = Inr r \<and> status_code r \<noteq> 200"
  then show "validate_urls env (pre @ url # post) w
            = (Inl (ValueError (''URL: '' @ url @ '' returned non-200 status code: ''
                      @ str_of_nat (status_code r))),
               w\<lparr>requests_log := requests_log w @ filter (\<lambda>u. u \<noteq> []) pre @ [url]\<rparr>)"
    using validate_urls_first_failure [of pre env url r post w] by blast
qed

theorem validate_urls_contract_witness:
  "fst (validate_urls (sample_env (sample_fs []) (Inr (sample_dist [])))
          [''https://github.com/alice/samplepkg'', ''https://example.com'', []] world0) = Inr ()
   \<and> requests_log (snd (validate_urls (sample_env (sample_fs []) (Inr (sample_dist [])))
          [''https://github.com/alice/samplepkg'', ''https://example.com'', []] world0))
       = [''https://github.com/alice/samplepkg'', ''https://example.com'']
   \<and> validate_urls (sample_env (sample_fs []) (Inr (sample_dist [])))
          [[], ''https://example.com'', ''https://example.org/docs'', ''https://example.com''] world0
       = (Inl (ValueError ''URL: https://example.org/docs returned non-200 status code: 404''),
          world0\<lparr>requests_log := [''https://example.com'', ''https://example.org/docs'']\<rparr>)"
proof -
  let ?env = "sample_env (sample_fs []) (Inr (sample_dist []))"
  have good: "\<forall>u \<in> set [''https://github.com/alice/samplepkg'', ''https://example.com'', []].
                u \<noteq> [] \<longrightarrow> (\<exists>r. http_get ?env u = Inr r \<and> status_code r = 200)"
    by (simp add: sample_env_def sample_http_def answer_def)
  have pre: "\<forall>u \<in> set [[], ''https://example.com''].
                u \<noteq> [] \<longrightarrow> (\<exists>r. http_get ?env u = Inr r \<and> status_code r = 200)"
    by (simp add: sample_env_def sample_http_def answer_def)
  have bad: "''https://example.org/docs'' \<noteq> []
             \<and> http_get ?env ''https://example.org/docs''
                 = Inr (answer 404 ''Not Found'' ''https://example.org/docs'')
             \<and> status_code (answer 404 ''Not Found'' ''https://example.org/docs'') \<noteq> 200"
    by code_simp
  have shown: "str_of_nat (status_code (answer 404 ''Not Found'' ''https://example.org/docs'')) = ''404''"
    by code_simp
  have log0: "requests_log world0 = []"
    by code_simp
  have a: "fst (validate_urls ?env
             [''https://github.com/alice/samplepkg'', ''https://example.com'', []] world0) = Inr ()"
    using validate_urls_contract [of ?env
            "[''https://github.com/alice/samplepkg'', ''https://example.com'', []]" world0] good
    by blast
  have b: "requests_log (snd (validate_urls ?env
             [''https://github.com/alice/samplepkg'', ''https://example.com'', []] world0))
           = requests_log world0 @ filter (\<lambda>u. u \<noteq> [])
               [''https://github.com/alice/samplepkg'', ''https://example.com'', []]"
    using validate_urls_contract [of ?env
            "[''https://github.com/alice/samplepkg'', ''https://example.com'', []]" world0] a
    by blast
  have c: "validate_urls ?env ([[], ''https://example.com''] @ ''https://example.org/docs''
                                 # [''https://example.com'']) world0
       = (Inl (ValueError (''URL: '' @ ''https://example.org/docs''
                 @ '' returned non-200 status code: ''
                 @ str_of_nat (status_code (answer 404 ''Not Found'' ''https://example.org/docs'')))),
          world0\<lparr>requests_log := requests_log world0
                    @ filter (\<lambda>u. u \<noteq> []) [[], ''https://example.com'']
                    @ [''https://example.org/docs'']\<rparr>)"
    using validate_urls_contract [of ?env _ world0 "[[], ''https://example.com'']"
            "''https://example.org/docs''"
            "answer 404 ''Not Found'' ''https://example.org/docs''" "[''https://example.com'']"]
      pre bad
    by blast
  from a b c shown log0 show ?thesis
    by simp
qed

section \<open>The manifest's dependency lists\<close>

text \<open>
  Claim C3, as amended. In the document \<open>make_meta_yaml\<close> hands to the emitter, the
  \<open>host\<close> list is \<open>python\<close>, \<open>pip\<close> and then the raw requirement list in order; the
  \<open>run\<close> list is \<open>python\<close> alone and then the raw requirement list in order.
\<close>

theorem manifest_dependency_lists:
  "yaml_get2 (meta username repo tag_name sha256 requirements package_name home_url repo_license
                license_filename summary documentation_url github_url maintainers)
             ''requirements'' ''host''
     = Some (YSeq (map YStr (''python'' # ''pip'' # requirements)))
   \<and> yaml_get2 (meta username repo tag_name sha256 requirements package_name home_url
                  repo_license license_filename summary documentation_url github_url maintainers)
               ''requirements'' ''run''
     = Some (YSeq (map YStr (''python'' # requirements)))"
  by (simp add: meta_def yaml_get2_def)

text \<open>
  Claim C3 as stated fails: for the fixture's two requirements the \<open>run\<close> list starts
  with \<open>python\<close> and goes on with the first requirement, so it is not the list prefixed
  with both \<open>python\<close> and \<open>pip\<close>.
\<close>

theorem manifest_run_list_counterexample:
  "yaml_get2 (meta ''alice'' ''samplepkg'' ''v1.2.0'' ''0f'' [''requests>=2.0'', ''pyyaml'']
               ''samplepkg'' ''https://example.com'' ''MIT'' ''LICENSE'' ''A sample package'' []
               ''https://github.com/alice/samplepkg'' [''alice''])
             ''requirements'' ''run''
     = Some (YSeq [YStr ''python'', YStr ''requests>=2.0'', YStr ''pyyaml''])
   \<and> yaml_get2 (meta ''alice'' ''samplepkg'' ''v1.2.0'' ''0f'' [''requests>=2.0'', ''pyyaml'']
               ''samplepkg'' ''https://example.com'' ''MIT'' ''LICENSE'' ''A sample package'' []
               ''https://github.com/alice/samplepkg'' [''alice''])
             ''requirements'' ''run''
     \<noteq> Some (YSeq (map YStr ([''python'', ''pip''] @ [''requests>=2.0'', ''pyyaml''])))"
  by code_simp

section \<open>The pipeline\<close>

text \<open>A run that returns a manifest has passed every stage, and a run that passes every
  stage returns the manifest; no stage but the version check touches the warnings.\<close>

lemma make_meta_yaml_Inr:
  assumes "make_meta_yaml dump env username repo maintainers documentation_url w0 = (Inr manifest, w')"
  shows "\<exists>tag_name w1 resp w2 dir fs lic lf reqs dist w3 w4 w5.
     get_latest_release env username repo w0 = (Inr tag_name, w1) \<and>
     download_tar_gz env username repo tag_name w1 = (Inr resp, w2) \<and>
     extract_tar_gz env resp = Inr (dir, fs) \<and>
     parse_license fs dir = Inr (lic, lf) \<and>
     get_requirements fs dir = Inr reqs \<and>
     parse_setup_py env fs dir w2 = (Inr dist, w3) \<and>
     validate_maintainers env maintainers w3 = (Inr (), w4) \<and>
     validate_urls env [repo_url username repo, get_url dist, documentation_url] w4 = (Inr (), w5) \<and>
     w' = (if \<not> py_in (get_version dist) tag_name
           then warnings_warn (version_warning (get_version dist) tag_name) w5 else w5) \<and>
     manifest = preamble (get_name dist) (get_version dist) @ [CHR 0x0A, CHR 0x0A]
        @ dump (meta username repo tag_name (sha256_hexdigest env (response_content resp)) reqs
                 (get_name dist) (get_url dist) lic lf (get_description dist)
                 documentation_url (repo_url username repo) maintainers)"
  using assms unfolding make_meta_yaml_def Let_def
  by (auto split: prod.splits sum.splits simp del: validate_urls.simps validate_maintainers.simps)

lemma make_meta_yaml_success:
  assumes "get_latest_release env username repo w0 = (Inr tag_name, w1)"
      and "download_tar_gz env username repo tag_name w1 = (Inr resp, w2)"
      and "extract_tar_gz env resp = Inr (dir, fs)"
      and "parse_license fs dir = Inr (lic, lf)"
      and "get_requirements fs dir = Inr reqs"
      and "parse_setup_py env fs dir w2 = (Inr dist, w3)"
      and "validate_maintainers env maintainers w3 = (Inr (), w4)"
      and "validate_urls env [repo_url username repo, get_url dist, documentation_url] w4
             = (Inr (), w5)"
  shows "make_meta_yaml dump env username repo maintainers documentation_url w0 =
     (Inr (preamble (get_name dist) (get_version dist) @ [CHR 0x0A, CHR 0x0A]
        @ dump (meta username repo tag_name (sha256_hexdigest env (response_content resp)) reqs
                 (get_name dist) (get_url dist) lic lf (get_description dist)
                 documentation_url (repo_url username repo) maintainers)),
      if \<not> py_in (get_version dist) tag_name
           then warnings_warn (version_warning (get_version dist) tag_name) w5 else w5)"
  using assms unfolding make_meta_yaml_def Let_def
  by (simp del: validate_urls.simps validate_maintainers.simps)

lemma requests_get_warnings: "warnings_log (snd (requests_get env u w)) = warnings_log w"
  by (simp add: requests_get_def)

lemma get_latest_release_warnings:
  "warnings_log (snd (get_latest_release env username repo w)) = warnings_log w"
  by (simp add: get_latest_release_def requests_get_def split: sum.splits option.splits)

lemma download_tar_gz_warnings:
  "warnings_log (snd (download_tar_gz env username repo tag_name w)) = warnings_log w"
  by (simp add: download_tar_gz_def requests_get_def split: sum.splits)

lemma parse_setup_py_warnings:
  "warnings_log (snd (parse_setup_py env fs path w)) = warnings_log w"
  by (simp add: parse_setup_py_def os_chdir_def Let_def split: option.splits sum.splits)

lemma validate_maintainers_warnings:
  "warnings_log (snd (validate_maintainers env maintainers w)) = warnings_log w"
  by (induction maintainers arbitrary: w)
     (simp_all add: requests_get_def split: sum.splits)

lemma validate_urls_warnings:
  "warnings_log (snd (validate_urls env urls w)) = warnings_log w"
proof (induction urls arbitrary: w)
  case Nil
  then show ?case by simp
next
  case (Cons url rest)
  show ?case
    unfolding validate_urls_step
    by (simp add: Cons.IH split: sum.splits)
qed

text \<open>
  Claim C9. In a run whose stages all succeed, the manifest is rendered whether or not the
  version of the build description occurs in the release tag: the result is the same
  manifest in both cases. When the version does not occur in the tag the run has issued
  exactly one more warning, the version-mismatch warning; when the tag contains the
  version it has issued none.
\<close>

theorem version_mismatch_warns:
  assumes "get_latest_release env username repo w0 = (Inr tag_name, w1)"
      and "download_tar_gz env username repo tag_name w1 = (Inr resp, w2)"
      and "extract_tar_gz env resp = Inr (dir, fs)"
      and "parse_license fs dir = Inr (lic, lf)"
      and "get_requirements fs dir = Inr reqs"
      and "parse_setup_py env fs dir w2 = (Inr dist, w3)"
      and "validate_maintainers env maintainers w3 = (Inr (), w4)"
      and "validate_urls env [repo_url username repo, get_url dist, documentation_url] w4
             = (Inr (), w5)"
  shows "fst (make_meta_yaml dump env username repo maintainers documentation_url w0)
           = Inr (preamble (get_name dist) (get_version dist) @ [CHR 0x0A, CHR 0x0A]
               @ dump (meta username repo tag_name (sha256_hexdigest env (response_content resp))
                        reqs (get_name dist) (get_url dist) lic lf (get_description dist)
                        documentation_url (repo_url username repo) maintainers))
         \<and> warnings_log (snd (make_meta_yaml dump env username repo maintainers
                                documentation_url w0))
           = (if py_in (get_version dist) tag_name then warnings_log w0
              else warnings_log w0 @ [version_warning (get_version dist) tag_name])"
proof -
  have "warnings_log w1 = warnings_log w0"
    using get_latest_release_warnings [of env username repo w0] assms(1) by simp
  moreover have "warnings_log w2 = warnings_log w1"
    using download_tar_gz_warnings [of env username repo tag_name w1] assms(2) by simp
  moreover have "warnings_log w3 = warnings_log w2"
    using parse_setup_py_warnings [of env fs dir w2] assms(6) by simp
  moreover have "warnings_log w4 = warnings_log w3"
    using validate_maintainers_warnings [of env maintainers w3] assms(7) by simp
  moreover have "warnings_log w5 = warnings_log w4"
    using validate_urls_warnings [of env _ w4] assms(8) by (metis snd_conv)
  ultimately have "warnings_log w5 = warnings_log w0"
    by simp
  then show ?thesis
    by (simp only: make_meta_yaml_success [OF assms]) (simp add: warnings_warn_def)
qed

text \<open>
  Claim C2. A run that returns a manifest has resolved, downloaded and unpacked the
  release, and on the unpacked tree license classification, dependency reading and
  build-metadata extraction have all succeeded. Conversely, once the release is unpacked,
  a failure of license classification, of dependency reading after a successful
  classification, or of build-metadata extraction after the two, is the result of the
  run: it aborts with that error and returns no manifest.
\<close>

theorem all_or_nothing:
  "(make_meta_yaml dump env username repo maintainers documentation_url w0 = (Inr manifest, w')
      \<longrightarrow> (\<exists>tag_name w1 resp w2 dir fs.
             get_latest_release env username repo w0 = (Inr tag_name, w1)
             \<and> download_tar_gz env username repo tag_name w1 = (Inr resp, w2)
             \<and> extract_tar_gz env resp = Inr (dir, fs)
             \<and> (\<exists>classified. parse_license fs dir = Inr classified)
             \<and> (\<exists>reqs. get_requirements fs dir = Inr reqs)
             \<and> (\<exists>dist w3. parse_setup_py env fs dir w2 = (Inr dist, w3))))
   \<and> (get_latest_release env username repo w0 = (Inr tag_name, w1)
        \<and> download_tar_gz env username repo tag_name w1 = (Inr resp, w2)
        \<and> extract_tar_gz env resp = Inr (dir, fs)
      \<longrightarrow> (parse_license fs dir = Inl e
             \<longrightarrow> fst (make_meta_yaml dump env username repo maintainers documentation_url w0)
                   = Inl e)
          \<and> (parse_license fs dir = Inr classified \<and> get_requirements fs dir = Inl e
             \<longrightarrow> fst (make_meta_yaml dump env username repo maintainers documentation_url w0)
                   = Inl e)
          \<and> (parse_license fs dir = Inr classified \<and> get_requirements fs dir = Inr reqs
               \<and> fst (parse_setup_py env fs dir w2) = Inl e
             \<longrightarrow> fst (make_meta_yaml dump env username repo maintainers documentation_url w0)
                   = Inl e))"
proof (intro conjI impI)
  assume "make_meta_yaml dump env username repo maintainers documentation_url w0 = (Inr manifest, w')"
  from make_meta_yaml_Inr [OF this]
  show "\<exists>tag_name w1 resp w2 dir fs.
             get_latest_release env username repo w0 = (Inr tag_name, w1)
             \<and> download_tar_gz env username repo tag_name w1 = (Inr resp, w2)
             \<and> extract_tar_gz env resp = Inr (dir, fs)
             \<and> (\<exists>classified. parse_license fs dir = Inr classified)
             \<and> (\<exists>reqs. get_requirements fs dir = Inr reqs)
             \<and> (\<exists>dist w3. parse_setup_py env fs dir w2 = (Inr dist, w3))"
    by blast
next
  assume fetched: "get_latest_release env username repo w0 = (Inr tag_name, w1)
        \<and> download_tar_gz env username repo tag_name w1 = (Inr resp, w2)
        \<and> extract_tar_gz env resp = Inr (dir, fs)"
  assume "parse_license fs dir = Inl e"
  with fetched
  show "fst (make_meta_yaml dump env username repo maintainers documentation_url w0) = Inl e"
    unfolding make_meta_yaml_def Let_def by simp
next
  assume fetched: "get_latest_release env username repo w0 = (Inr tag_name, w1)
        \<and> download_tar_gz env username repo tag_name w1 = (Inr resp, w2)
        \<and> extract_tar_gz env resp = Inr (dir, fs)"
  assume "parse_license fs dir = Inr classified \<and> get_requirements fs dir = Inl e"
  with fetched
  show "fst (make_meta_yaml dump env username repo maintainers documentation_url w0) = Inl e"
    unfolding make_meta_yaml_def Let_def by (cases classified) simp
next
  assume fetched: "get_latest_release env username repo w0 = (Inr tag_name, w1)
        \<and> download_tar_gz env username repo tag_name w1 = (Inr resp, w2)
        \<and> extract_tar_gz env resp = Inr (dir, fs)"
  assume staged: "parse_license fs dir = Inr classified \<and> get_requirements fs dir = Inr reqs
               \<and> fst (parse_setup_py env fs dir w2) = Inl e"
  then obtain w3 where "parse_setup_py env fs dir w2 = (Inl e, w3)"
    by (metis prod.collapse)
  with fetched staged
  show "fst (make_meta_yaml dump env username repo maintainers documentation_url w0) = Inl e"
    unfolding make_meta_yaml_def Let_def by (cases classified) simp
qed

text \<open>The stages of the fixture's run, evaluated.\<close>

lemma sample_fetch:
  "get_latest_release (sample_env fs st) ''alice'' ''samplepkg'' world0
     = (Inr ''v1.2.0'',
        world0\<lparr>requests_log := [''https://api.github.com/repos/alice/samplepkg/releases/latest'']\<rparr>)"
  "download_tar_gz (sample_env fs st) ''alice'' ''samplepkg'' ''v1.2.0''
       (world0\<lparr>requests_log := [''https://api.github.com/repos/alice/samplepkg/releases/latest'']\<rparr>)
     = (Inr (answer 200 ''OK'' ''https://github.com/alice/samplepkg/archive/refs/tags/v1.2.0.tar.gz''),
        world0\<lparr>requests_log :=
                 [''https://api.github.com/repos/alice/samplepkg/releases/latest'',
                  ''https://github.com/alice/samplepkg/archive/refs/tags/v1.2.0.tar.gz'']\<rparr>)"
  by code_simp+

lemma sample_extract:
  "extract_tar_gz (sample_env fs st)
       (answer 200 ''OK'' ''https://github.com/alice/samplepkg/archive/refs/tags/v1.2.0.tar.gz'')
     = Inr (''/tmp/tmpabc'', fs)"
  by (simp add: extract_tar_gz_def sample_env_def)

lemma sample_stages:
  "parse_license (sample_fs ''MIT License'') ''/tmp/tmpabc'' = Inr (''MIT'', ''LICENSE'')"
  "get_requirements (sample_fs ''MIT License'') ''/tmp/tmpabc'' = Inr [''requests>=2.0'', ''pyyaml'']"
  "parse_setup_py (sample_env fs (Inr (sample_dist version))) (sample_fs ''MIT License'') ''/tmp/tmpabc''
       (world0\<lparr>requests_log :=
                 [''https://api.github.com/repos/alice/samplepkg/releases/latest'',
                  ''https://github.com/alice/samplepkg/archive/refs/tags/v1.2.0.tar.gz'']\<rparr>)
     = (Inr (sample_dist version),
        world0\<lparr>requests_log :=
                 [''https://api.github.com/repos/alice/samplepkg/releases/latest'',
                  ''https://github.com/alice/samplepkg/archive/refs/tags/v1.2.0.tar.gz''],
               sys_path := [''/tmp/tmpabc/samplepkg-1.2.0'', ''/usr/lib/python3'']\<rparr>)"
  by code_simp+

lemma sample_validation:
  "validate_maintainers (sample_env fs st) [''alice'']
       (world0\<lparr>requests_log :=
                 [''https://api.github.com/repos/alice/samplepkg/releases/latest'',
                  ''https://github.com/alice/samplepkg/archive/refs/tags/v1.2.0.tar.gz''],
               sys_path := [''/tmp/tmpabc/samplepkg-1.2.0'', ''/usr/lib/python3'']\<rparr>)
     = (Inr (),
        world0\<lparr>requests_log :=
                 [''https://api.github.com/repos/alice/samplepkg/releases/latest'',
                  ''https://github.com/alice/samplepkg/archive/refs/tags/v1.2.0.tar.gz'',
                  ''https://api.github.com/users/alice''],
               sys_path := [''/tmp/tmpabc/samplepkg-1.2.0'', ''/usr/lib/python3'']\<rparr>)"
  "validate_urls (sample_env fs st)
       [repo_url ''alice'' ''samplepkg'', get_url (sample_dist version), []]
       (world0\<lparr>requests_log :=
                 [''https://api.github.com/repos/alice/samplepkg/releases/latest'',
                  ''https://github.com/alice/samplepkg/archive/refs/tags/v1.2.0.tar.gz'',
                  ''https://api.github.com/users/alice''],
               sys_path := [''/tmp/tmpabc/samplepkg-1.2.0'', ''/usr/lib/python3'']\<rparr>)
     = (Inr (),
        world0\<lparr>requests_log :=
                 [''https://api.github.com/repos/alice/samplepkg/releases/latest'',
                  ''https://github.com/alice/samplepkg/archive/refs/tags/v1.2.0.tar.gz'',
                  ''https://api.github.com/users/alice'',
                  ''https://github.com/alice/samplepkg'', ''https://example.com''],
               sys_path := [''/tmp/tmpabc/samplepkg-1.2.0'', ''/usr/lib/python3'']\<rparr>)"
  by code_simp+

theorem version_mismatch_warns_witness:
  "\<forall>dump.
     fst (make_meta_yaml dump (sample_env (sample_fs ''MIT License'') (Inr (sample_dist ''1.1.0'')))
            ''alice'' ''samplepkg'' [''alice''] [] world0)
       = Inr (preamble ''samplepkg'' ''1.1.0'' @ [CHR 0x0A, CHR 0x0A]
           @ dump (meta ''alice'' ''samplepkg'' ''v1.2.0'' ''0f'' [''requests>=2.0'', ''pyyaml'']
                    ''samplepkg'' ''https://example.com'' ''MIT'' ''LICENSE'' ''A sample package'' []
                    (repo_url ''alice'' ''samplepkg'') [''alice'']))
     \<and> warnings_log (snd (make_meta_yaml dump
            (sample_env (sample_fs ''MIT License'') (Inr (sample_dist ''1.1.0'')))
            ''alice'' ''samplepkg'' [''alice''] [] world0))
       = [version_warning ''1.1.0'' ''v1.2.0'']
     \<and> warnings_log (snd (make_meta_yaml dump
            (sample_env (sample_fs ''MIT License'') (Inr (sample_dist ''1.2.0'')))
            ''alice'' ''samplepkg'' [''alice''] [] world0))
       = []"
proof
  fix dump :: "yaml \<Rightarrow> string"
  have differs: "\<not> py_in (get_version (sample_dist ''1.1.0'')) ''v1.2.0''"
    by code_simp
  have agrees: "py_in (get_version (sample_dist ''1.2.0'')) ''v1.2.0''"
    by code_simp
  have fields: "get_name (sample_dist ''1.1.0'') = ''samplepkg''"
    "get_version (sample_dist ''1.1.0'') = ''1.1.0''"
    "get_url (sample_dist ''1.1.0'') = ''https://example.com''"
    "get_description (sample_dist ''1.1.0'') = ''A sample package''"
    "sha256_hexdigest (sample_env (sample_fs ''MIT License'') (Inr (sample_dist ''1.1.0'')))
       (response_content
          (answer 200 ''OK'' ''https://github.com/alice/samplepkg/archive/refs/tags/v1.2.0.tar.gz''))
     = ''0f''"
    "warnings_log world0 = []"
    by (simp_all add: sample_dist_def sample_env_def world0_def)
  let ?fs = "sample_fs ''MIT License''"
  note mismatch =
    version_mismatch_warns [OF
      sample_fetch(1) [of ?fs "Inr (sample_dist ''1.1.0'')"]
      sample_fetch(2) [of ?fs "Inr (sample_dist ''1.1.0'')"]
      sample_extract [of ?fs "Inr (sample_dist ''1.1.0'')"]
      sample_stages(1) sample_stages(2) sample_stages(3) [of ?fs "''1.1.0''"]
      sample_validation(1) [of ?fs "Inr (sample_dist ''1.1.0'')"]
      sample_validation(2) [of ?fs "Inr (sample_dist ''1.1.0'')" "''1.1.0''"],
      where dump = dump]
  note match =
    version_mismatch_warns [OF
      sample_fetch(1) [of ?fs "Inr (sample_dist ''1.2.0'')"]
      sample_fetch(2) [of ?fs "Inr (sample_dist ''1.2.0'')"]
      sample_extract [of ?fs "Inr (sample_dist ''1.2.0'')"]
      sample_stages(1) sample_stages(2) sample_stages(3) [of ?fs "''1.2.0''"]
      sample_validation(1) [of ?fs "Inr (sample_dist ''1.2.0'')"]
      sample_validation(2) [of ?fs "Inr (sample_dist ''1.2.0'')" "''1.2.0''"],
      where dump = dump]
  from mismatch match differs agrees fields
  show "fst (make_meta_yaml dump (sample_env (sample_fs ''MIT License'') (Inr (sample_dist ''1.1.0'')))
            ''alice'' ''samplepkg'' [''alice''] [] world0)
       = Inr (preamble ''samplepkg'' ''1.1.0'' @ [CHR 0x0A, CHR 0x0A]
           @ dump (meta ''alice'' ''samplepkg'' ''v1.2.0'' ''0f'' [''requests>=2.0'', ''pyyaml'']
                    ''samplepkg'' ''https://example.com'' ''MIT'' ''LICENSE'' ''A sample package'' []
                    (repo_url ''alice'' ''samplepkg'') [''alice'']))
     \<and> warnings_log (snd (make_meta_yaml dump
            (sample_env (sample_fs ''MIT License'') (Inr (sample_dist ''1.1.0'')))
            ''alice'' ''samplepkg'' [''alice''] [] world0))
       = [version_warning ''1.1.0'' ''v1.2.0'']
     \<and> warnings_log (snd (make_meta_yaml dump
            (sample_env (sample_fs ''MIT License'') (Inr (sample_dist ''1.2.0'')))
            ''alice'' ''samplepkg'' [''alice''] [] world0))
       = []"
    by simp
qed

lemma sample_failures:
  "parse_license no_license_fs ''/tmp/tmpabc'' = Inl (ValueError ''Could not find license file.'')"
  "parse_license no_requirements_fs ''/tmp/tmpabc'' = Inr (''MIT'', ''LICENSE'')"
  "get_requirements no_requirements_fs ''/tmp/tmpabc''
     = Inl (ValueError ''Could not find requirements file.'')"
  "fst (parse_setup_py (sample_env fs (Inl (Raised ''SyntaxError''))) (sample_fs ''MIT License'')
          ''/tmp/tmpabc''
          (world0\<lparr>requests_log :=
                 [''https://api.github.com/repos/alice/samplepkg/releases/latest'',
                  ''https://github.com/alice/samplepkg/archive/refs/tags/v1.2.0.tar.gz'']\<rparr>))
     = Inl (Raised ''SyntaxError'')"
  by code_simp+

theorem all_or_nothing_witness:
  "\<forall>dump.
     (\<exists>tag_name w1 resp w2 dir fs.
         get_latest_release (sample_env (sample_fs ''MIT License'') (Inr (sample_dist ''1.2.0'')))
           ''alice'' ''samplepkg'' world0 = (Inr tag_name, w1)
         \<and> download_tar_gz (sample_env (sample_fs ''MIT License'') (Inr (sample_dist ''1.2.0'')))
             ''alice'' ''samplepkg'' tag_name w1 = (Inr resp, w2)
         \<and> extract_tar_gz (sample_env (sample_fs ''MIT License'') (Inr (sample_dist ''1.2.0'')))
             resp = Inr (dir, fs)
         \<and> (\<exists>classified. parse_license fs dir = Inr classified)
         \<and> (\<exists>reqs. get_requirements fs dir = Inr reqs)
         \<and> (\<exists>dist w3.
               parse_setup_py (sample_env (sample_fs ''MIT License'') (Inr (sample_dist ''1.2.0'')))
                 fs dir w2 = (Inr dist, w3)))
     \<and> fst (make_meta_yaml dump (sample_env no_license_fs (Inr (sample_dist ''1.2.0'')))
              ''alice'' ''samplepkg'' [''alice''] [] world0)
         = Inl (ValueError ''Could not find license file.'')
     \<and> fst (make_meta_yaml dump (sample_env no_requirements_fs (Inr (sample_dist ''1.2.0'')))
              ''alice'' ''samplepkg'' [''alice''] [] world0)
         = Inl (ValueError ''Could not find requirements file.'')
     \<and> fst (make_meta_yaml dump
              (sample_env (sample_fs ''MIT License'') (Inl (Raised ''SyntaxError'')))
              ''alice'' ''samplepkg'' [''alice''] [] world0)
         = Inl (Raised ''SyntaxError'')"
proof
  fix dump :: "yaml \<Rightarrow> string"
  let ?fs = "sample_fs ''MIT License''"
  let ?ok = "Inr (sample_dist ''1.2.0'') :: error + distribution"
  let ?broken = "Inl (Raised ''SyntaxError'') :: error + distribution"
  obtain manifest w' where run:
    "make_meta_yaml dump (sample_env ?fs ?ok) ''alice'' ''samplepkg'' [''alice''] [] world0
       = (Inr manifest, w')"
    using make_meta_yaml_success [OF
      sample_fetch(1) [of ?fs ?ok] sample_fetch(2) [of ?fs ?ok] sample_extract [of ?fs ?ok]
      sample_stages(1) sample_stages(2) sample_stages(3) [of ?fs "''1.2.0''"]
      sample_validation(1) [of ?fs ?ok] sample_validation(2) [of ?fs ?ok "''1.2.0''"],
      where dump = dump]
    by blast
  note produced = all_or_nothing [THEN conjunct1, THEN mp, OF run]
  have fetched: "\<And>fs st.
    get_latest_release (sample_env fs st) ''alice'' ''samplepkg'' world0
       = (Inr ''v1.2.0'',
          world0\<lparr>requests_log := [''https://api.github.com/repos/alice/samplepkg/releases/latest'']\<rparr>)
    \<and> download_tar_gz (sample_env fs st) ''alice'' ''samplepkg'' ''v1.2.0''
         (world0\<lparr>requests_log := [''https://api.github.com/repos/alice/samplepkg/releases/latest'']\<rparr>)
       = (Inr (answer 200 ''OK'' ''https://github.com/alice/samplepkg/archive/refs/tags/v1.2.0.tar.gz''),
          world0\<lparr>requests_log :=
                 [''https://api.github.com/repos/alice/samplepkg/releases/latest'',
                  ''https://github.com/alice/samplepkg/archive/refs/tags/v1.2.0.tar.gz'']\<rparr>)
    \<and> extract_tar_gz (sample_env fs st)
         (answer 200 ''OK'' ''https://github.com/alice/samplepkg/archive/refs/tags/v1.2.0.tar.gz'')
       = Inr (''/tmp/tmpabc'', fs)"
    using sample_fetch sample_extract by blast
  note no_license =
    all_or_nothing [where dump = dump and maintainers = "[''alice'']" and documentation_url = "[]",
      THEN conjunct2, THEN mp, OF fetched [of no_license_fs ?ok],
      THEN conjunct1, THEN mp, OF sample_failures(1)]
  note no_requirements =
    all_or_nothing [where dump = dump and maintainers = "[''alice'']" and documentation_url = "[]",
      THEN conjunct2, THEN mp, OF fetched [of no_requirements_fs ?ok],
      THEN conjunct2, THEN conjunct1, THEN mp,
      OF conjI [OF sample_failures(2) sample_failures(3)]]
  note broken_setup =
    all_or_nothing [where dump = dump and maintainers = "[''alice'']" and documentation_url = "[]",
      THEN conjunct2, THEN mp, OF fetched [of ?fs ?broken],
      THEN conjunct2, THEN conjunct2, THEN mp,
      OF conjI [OF sample_stages(1) conjI [OF sample_stages(2) sample_failures(4) [of ?fs]]]]
  from produced no_license no_requirements broken_setup
  show "(\<exists>tag_name w1 resp w2 dir fs.
         get_latest_release (sample_env (sample_fs ''MIT License'') (Inr (sample_dist ''1.2.0'')))
           ''alice'' ''samplepkg'' world0 = (Inr tag_name, w1)
         \<and> download_tar_gz (sample_env (sample_fs ''MIT License'') (Inr (sample_dist ''1.2.0'')))
             ''alice'' ''samplepkg'' tag_name w1 = (Inr resp, w2)
         \<and> extract_tar_gz (sample_env (sample_fs ''MIT License'') (Inr (sample_dist ''1.2.0'')))
             resp = Inr (dir, fs)
         \<and> (\<exists>classified. parse_license fs dir = Inr classified)
         \<and> (\<exists>reqs. get_requirements fs dir = Inr reqs)
         \<and> (\<exists>dist w3.
               parse_setup_py (sample_env (sample_fs ''MIT License'') (Inr (sample_dist ''1.2.0'')))
                 fs dir w2 = (Inr dist, w3)))
     \<and> fst (make_meta_yaml dump (sample_env no_license_fs (Inr (sample_dist ''1.2.0'')))
              ''alice'' ''samplepkg'' [''alice''] [] world0)
         = Inl (ValueError ''Could not find license file.'')
     \<and> fst (make_meta_yaml dump (sample_env no_requirements_fs (Inr (sample_dist ''1.2.0'')))
              ''alice'' ''samplepkg'' [''alice''] [] world0)
         = Inl (ValueError ''Could not find requirements file.'')
     \<and> fst (make_meta_yaml dump
              (sample_env (sample_fs ''MIT License'') (Inl (Raised ''SyntaxError'')))
              ''alice'' ''samplepkg'' [''alice''] [] world0)
         = Inl (Raised ''SyntaxError'')"
    by (intro conjI)
qed

end
